theory Spec2Isabelle
  imports Complex_Main
begin

section \<open>Buckling load prediction: the backend of \<^verbatim>\<open>src/backend/api.py\<close>\<close>

text \<open>
  The backend has one request record (\<^verbatim>\<open>BucklingInput\<close>), one table
  (\<^verbatim>\<open>MATERIAL_MODULUS\<close>) and two functions: \<^verbatim>\<open>formula_buckling\<close>, the Euler
  column formula, and \<^verbatim>\<open>predict_buckling\<close>, the endpoint that wraps it in a
  \<^verbatim>\<open>try\<close>/\<^verbatim>\<open>except\<close> and consults an optional regression model.

  Conventions of the embedding.
  \<^item> A Python \<^verbatim>\<open>float\<close> field is a \<^typ>\<open>real\<close> and arithmetic is exact:
    \<^verbatim>\<open>math.pi\<close> is \<^term>\<open>pi\<close>, \<^verbatim>\<open>t**3\<close> is \<^term>\<open>t ^ 3 :: real\<close>. Rounding error,
    overflow, infinities and NaN of IEEE arithmetic on the request fields lie outside
    this model. The value an opaque regression model hands back is the exception:
    the code tests it for NaN and for range, so it has a type of its own with NaN and
    the infinities.
  \<^item> A Python \<^verbatim>\<open>str\<close> is a \<^typ>\<open>string\<close> of bytes (UTF-8); whitespace and letter case
    are those of ASCII.
  \<^item> An exception is a value: functions that can raise return \<open>pyexn + 'a\<close>.
  \<^item> \<^verbatim>\<open>print\<close> calls only write to the log and are left out.
\<close>

subsection \<open>Strings\<close>

text \<open>\<^verbatim>\<open>str.strip()\<close>: removes leading and trailing whitespace.\<close>

definition py_isspace :: "char \<Rightarrow> bool" where
  "py_isspace c = (c \<in> set [CHR 0x09, CHR 0x0A, CHR 0x0B, CHR 0x0C, CHR 0x0D,
                               CHR 0x1C, CHR 0x1D, CHR 0x1E, CHR 0x1F, CHR 0x20])"

definition strip :: "string \<Rightarrow> string" where
  "strip s = rev (dropWhile py_isspace (rev (dropWhile py_isspace s)))"

text \<open>\<^verbatim>\<open>s.replace(" ", "_")\<close>: every space becomes an underscore.\<close>

definition replace_space :: "string \<Rightarrow> string" where
  "replace_space s = map (\<lambda>c. if c = CHR '' '' then CHR ''_'' else c) s"

text \<open>
  \<^verbatim>\<open>str.title()\<close>: a cased character that follows a cased character is lower-cased,
  any other cased character is upper-cased, uncased characters are kept and end the word.
\<close>

definition ascii_lowercase :: string where
  "ascii_lowercase = ''abcdefghijklmnopqrstuvwxyz''"

definition ascii_uppercase :: string where
  "ascii_uppercase = ''ABCDEFGHIJKLMNOPQRSTUVWXYZ''"

definition upper_char :: "char \<Rightarrow> char" where
  "upper_char c = (case map_of (zip ascii_lowercase ascii_uppercase) c of
                     Some u \<Rightarrow> u | None \<Rightarrow> c)"

definition lower_char :: "char \<Rightarrow> char" where
  "lower_char c = (case map_of (zip ascii_uppercase ascii_lowercase) c of
                     Some l \<Rightarrow> l | None \<Rightarrow> c)"

definition is_cased :: "char \<Rightarrow> bool" where
  "is_cased c = (c \<in> set ascii_lowercase \<or> c \<in> set ascii_uppercase)"

fun title_from :: "bool \<Rightarrow> string \<Rightarrow> string" where
  "title_from previous_is_cased [] = []"
| "title_from previous_is_cased (c # cs) =
     (if is_cased c
      then (if previous_is_cased then lower_char c else upper_char c) # title_from True cs
      else c # title_from False cs)"

definition title :: "string \<Rightarrow> string" where
  "title s = title_from False s"

subsection \<open>Exceptions, division, rounding\<close>

datatype pyexn = ZeroDivisionError | ModelException string

text \<open>\<^verbatim>\<open>str(e)\<close>, the message of an exception.\<close>

fun exn_str :: "pyexn \<Rightarrow> string" where
  "exn_str ZeroDivisionError = ''float division by zero''"
| "exn_str (ModelException msg) = msg"

text \<open>Float division raises on a zero divisor.\<close>

definition py_div :: "real \<Rightarrow> real \<Rightarrow> pyexn + real" where
  "py_div x y = (if y = 0 then Inl ZeroDivisionError else Inr (x / y))"

text \<open>Sequencing of computations that can raise: the first exception is the result.\<close>

definition and_then :: "pyexn + 'a \<Rightarrow> ('a \<Rightarrow> pyexn + 'b) \<Rightarrow> pyexn + 'b" where
  "and_then r f = (case r of Inl e \<Rightarrow> Inl e | Inr v \<Rightarrow> f v)"

text \<open>
  \<^verbatim>\<open>round(x, ndigits)\<close>: to \<^verbatim>\<open>ndigits\<close> decimal places, an exact tie
  going to the even neighbour.
\<close>

definition round_half_even :: "real \<Rightarrow> int" where
  "round_half_even x =
     (let f = \<lfloor>x\<rfloor>; r = x - of_int f
      in if r < 1 / 2 then f
         else if 1 / 2 < r then f + 1
         else if even f then f else f + 1)"

definition py_round :: "real \<Rightarrow> nat \<Rightarrow> real" where
  "py_round x ndigits = of_int (round_half_even (x * 10 ^ ndigits)) / 10 ^ ndigits"

subsection \<open>The request record and the material table\<close>

record BucklingInput =
  Shape :: string
  Material :: string
  Fibre_Type :: string
  Length_mm :: real
  Width_mm :: real
  Thickness_mm :: real
  Outer_Diameter_mm :: real
  Inner_Diameter_mm :: real
  Hole_Diameter_mm :: real
  Youngs_Modulus_GPa :: real
  Poissons_Ratio :: real
  Strength_0_deg_MPa :: real
  Strength_90_deg_MPa :: real
  Area_mm2 :: real
  I_min_mm4 :: real
  I_max_mm4 :: real
  Buckling_Load_norm :: real

text \<open>The en dash (U+2013) of the first spelling of each fibre material, in UTF-8.\<close>

definition en_dash :: string where
  "en_dash = [CHR 0xE2, CHR 0x80, CHR 0x93]"

definition MATERIAL_MODULUS :: "(string \<times> real) list" where
  "MATERIAL_MODULUS =
     [(''CF'' @ en_dash @ ''PLA'', 32 / 10), (''CF-PLA'', 32 / 10),
      (''GF'' @ en_dash @ ''PLA'', 5), (''GF-PLA'', 5),
      (''Standard_PLA'', 23 / 10), (''PLA'', 23 / 10),
      (''Standard_ABS'', 21 / 10), (''ABS'', 21 / 10)]"

text \<open>\<^verbatim>\<open>d.get(key, default)\<close>.\<close>

definition dict_get :: "('k \<times> 'v) list \<Rightarrow> 'k \<Rightarrow> 'v \<Rightarrow> 'v" where
  "dict_get d k dflt = (case map_of d k of Some v \<Rightarrow> v | None \<Rightarrow> dflt)"

subsection \<open>\<^verbatim>\<open>formula_buckling\<close>\<close>

text \<open>
  Lines 105 to 107, and again 148 to 150: the modulus in GPa, inferred from the
  material when the request gives 0. The field is a required float, so the test
  \<^verbatim>\<open>E is None\<close> never holds.
\<close>

definition infer_modulus :: "BucklingInput \<Rightarrow> real" where
  "infer_modulus data =
     (let E = Youngs_Modulus_GPa data
      in if E = 0 then dict_get MATERIAL_MODULUS (replace_space (Material data)) (23 / 10)
         else E)"

text \<open>Lines 111 to 125: the moment of inertia, by the normalised shape name.\<close>

definition moment_of_inertia :: "string \<Rightarrow> real \<Rightarrow> real \<Rightarrow> real \<Rightarrow> real \<Rightarrow> real \<Rightarrow> real" where
  "moment_of_inertia shape b t d_o d_i d_hole =
     (if shape = ''Plate'' then (b * t ^ 3) / 12
      else if shape = ''Plate_With_Hole'' then (b * t ^ 3) / 12 - pi * (d_hole ^ 4) / 64
      else if shape = ''Cylinder'' then (pi / 64) * (d_o ^ 4)
      else if shape = ''Hollow_Cylinder'' then
        (if d_o > d_i then (pi / 64) * (d_o ^ 4 - d_i ^ 4) else 0)
      else if shape = ''Rectangular_Bar'' then (b * t ^ 3) / 12
      else if shape = ''Hollow_Rectangular_Bar'' then
        (if b > 2 * t then ((b ^ 4) - (b - 2 * t) ^ 4) / 12 else 0)
      else 0)"

text \<open>
  Lines 127 to 136: the fixed-free effective length, the guard and the Euler load in kN.
  \<open>E\<close> is in MPa here.
\<close>

definition euler_load :: "real \<Rightarrow> real \<Rightarrow> real \<Rightarrow> pyexn + real" where
  "euler_load E I L =
     (let Le = 2 * L
      in if E > 0 \<and> I > 0 \<and> Le > 0
         then and_then (py_div (pi ^ 2 * E * I) (Le ^ 2))
                (\<lambda>P_cr. Inr (py_round (P_cr / 1000) 3))
         else Inr 0)"

definition normalise_shape :: "string \<Rightarrow> string" where
  "normalise_shape s = title (replace_space (strip s))"

definition formula_buckling :: "BucklingInput \<Rightarrow> pyexn + real" where
  "formula_buckling data =
     (let shape = normalise_shape (Shape data);
          L = Length_mm data;
          b = Width_mm data;
          t = Thickness_mm data;
          d_o = Outer_Diameter_mm data;
          d_i = Inner_Diameter_mm data;
          d_hole = Hole_Diameter_mm data;
          E = infer_modulus data * 1000;
          I = moment_of_inertia shape b t d_o d_i d_hole
      in euler_load E I L)"

subsection \<open>\<^verbatim>\<open>predict_buckling\<close>\<close>

text \<open>
  The value \<^verbatim>\<open>float(model.predict(features)[0])\<close>: any float, NaN and the infinities
  included. The three tests the endpoint makes on it follow IEEE comparison: every
  comparison with NaN is false.
\<close>

datatype pyfloat = Fin real | PosInf | NegInf | NaN

fun pf_le :: "pyfloat \<Rightarrow> real \<Rightarrow> bool" where
  "pf_le (Fin x) y = (x \<le> y)"
| "pf_le NegInf y = True"
| "pf_le PosInf y = False"
| "pf_le NaN y = False"

fun pf_gt :: "pyfloat \<Rightarrow> real \<Rightarrow> bool" where
  "pf_gt (Fin x) y = (x > y)"
| "pf_gt PosInf y = True"
| "pf_gt NegInf y = False"
| "pf_gt NaN y = False"

fun pf_eq :: "pyfloat \<Rightarrow> real \<Rightarrow> bool" where
  "pf_eq (Fin x) y = (x = y)"
| "pf_eq p y = False"

fun isnan :: "pyfloat \<Rightarrow> bool" where
  "isnan NaN = True"
| "isnan p = False"

text \<open>
  The process-wide \<^verbatim>\<open>model\<close>: absent (\<^verbatim>\<open>None\<close>), or an opaque predictor that
  takes the feature row and returns a float or raises.
\<close>

type_synonym predictor = "real list \<Rightarrow> pyexn + pyfloat"

text \<open>Lines 160 to 163: the single row of the feature frame, in column order.\<close>

definition features :: "BucklingInput \<Rightarrow> real \<Rightarrow> real list" where
  "features data E_MPa =
     [Length_mm data, Width_mm data, Thickness_mm data,
      Outer_Diameter_mm data, Inner_Diameter_mm data, Hole_Diameter_mm data, E_MPa]"

text \<open>The response: a dictionary from keys to JSON values.\<close>

datatype json = JFloat real | JStr string

type_synonym response = "(string \<times> json) list"

text \<open>Lines 145 to 181: the body of the \<^verbatim>\<open>try\<close> block.\<close>

definition predict_try :: "predictor option \<Rightarrow> BucklingInput \<Rightarrow> pyexn + response" where
  "predict_try model data =
     (let E = infer_modulus data;
          E_MPa = E * 1000
      in and_then
           (case model of
              Some m \<Rightarrow>
                and_then (m (features data E_MPa))
                  (\<lambda>pred. if pf_le pred 0 \<or> pf_gt pred (10 ^ 6) \<or> isnan pred
                           then and_then (formula_buckling data) (\<lambda>p. Inr (Fin p))
                           else Inr pred)
            | None \<Rightarrow> and_then (formula_buckling data) (\<lambda>p. Inr (Fin p)))
           (\<lambda>pred.
              and_then
                (if pf_eq pred 0 \<or> isnan pred
                 then and_then (formula_buckling data) (\<lambda>p. Inr (Fin p))
                 else Inr pred)
                (\<lambda>pred.
                   and_then (formula_buckling data)
                     (\<lambda>f. let pred1 = f * (101 / 100)
                          in Inr [(''predicted_buckling_load_kN'', JFloat pred1)]))))"

text \<open>Lines 144 and 183 to 185: every exception becomes the error response.\<close>

definition predict_buckling :: "predictor option \<Rightarrow> BucklingInput \<Rightarrow> response" where
  "predict_buckling model data =
     (case predict_try model data of
        Inr response \<Rightarrow> response
      | Inl e \<Rightarrow> [(''error'', JStr (exn_str e))])"

subsection \<open>Responses, and when the model call returns\<close>

definition success_response :: "real \<Rightarrow> response" where
  "success_response v = [(''predicted_buckling_load_kN'', JFloat v)]"

definition error_response :: "string \<Rightarrow> response" where
  "error_response msg = [(''error'', JStr msg)]"

text \<open>
  The model is absent, or its call on the feature row of this request returns a float
  (whatever float) instead of raising.
\<close>

definition model_returns :: "predictor option \<Rightarrow> BucklingInput \<Rightarrow> bool" where
  "model_returns model data =
     (case model of
        None \<Rightarrow> True
      | Some m \<Rightarrow> (case m (features data (infer_modulus data * 1000)) of
                    Inl e \<Rightarrow> False | Inr pred \<Rightarrow> True))"

subsection \<open>Concrete requests and predictors\<close>

definition blank_request :: BucklingInput where
  "blank_request =
     \<lparr>Shape = [], Material = [], Fibre_Type = [],
      Length_mm = 0, Width_mm = 0, Thickness_mm = 0,
      Outer_Diameter_mm = 0, Inner_Diameter_mm = 0, Hole_Diameter_mm = 0,
      Youngs_Modulus_GPa = 0, Poissons_Ratio = 0,
      Strength_0_deg_MPa = 0, Strength_90_deg_MPa = 0,
      Area_mm2 = 0, I_min_mm4 = 0, I_max_mm4 = 0, Buckling_Load_norm = 0\<rparr>"

text \<open>A PLA plate, 20 mm wide, 2 mm thick, 100 mm long, modulus left at 0.\<close>

definition plate_request :: BucklingInput where
  "plate_request =
     blank_request\<lparr>Shape := ''Plate'', Material := ''PLA'',
       Length_mm := 100, Width_mm := 20, Thickness_mm := 2\<rparr>"

text \<open>The same plate with length 0.\<close>

definition plate_request_L0 :: BucklingInput where
  "plate_request_L0 = plate_request\<lparr>Length_mm := 0\<rparr>"

text \<open>The same plate with the modulus given as -1 GPa.\<close>

definition plate_request_negative_E :: BucklingInput where
  "plate_request_negative_E = plate_request\<lparr>Youngs_Modulus_GPa := - 1\<rparr>"

text \<open>
  The request the web form sends for its first material: the name is the selected
  label up to its first space, and the label spells CF-PLA with an en dash.
\<close>

definition cf_pla_request :: BucklingInput where
  "cf_pla_request = plate_request\<lparr>Material := ''CF'' @ en_dash @ ''PLA''\<rparr>"



definition nan_model :: predictor where
  "nan_model row = Inr NaN"

definition constant_model :: predictor where
  "constant_model row = Inr (Fin 42)"

subsection \<open>Fields the computation reads\<close>

text \<open>
  Two requests agree on every field other than \<^verbatim>\<open>Fibre_Type\<close>, \<^verbatim>\<open>Poissons_Ratio\<close>,
  \<^verbatim>\<open>Strength_0_deg_MPa\<close>, \<^verbatim>\<open>Strength_90_deg_MPa\<close>, \<^verbatim>\<open>Area_mm2\<close>,
  \<^verbatim>\<open>I_min_mm4\<close>, \<^verbatim>\<open>I_max_mm4\<close> and \<^verbatim>\<open>Buckling_Load_norm\<close>.
\<close>

definition same_used_fields :: "BucklingInput \<Rightarrow> BucklingInput \<Rightarrow> bool" where
  "same_used_fields d1 d2 =
     (Shape d1 = Shape d2 \<and> Material d1 = Material d2
      \<and> Length_mm d1 = Length_mm d2 \<and> Width_mm d1 = Width_mm d2
      \<and> Thickness_mm d1 = Thickness_mm d2
      \<and> Outer_Diameter_mm d1 = Outer_Diameter_mm d2
      \<and> Inner_Diameter_mm d1 = Inner_Diameter_mm d2
      \<and> Hole_Diameter_mm d1 = Hole_Diameter_mm d2
      \<and> Youngs_Modulus_GPa d1 = Youngs_Modulus_GPa d2)"

text \<open>The plate request with all eight carried fields changed.\<close>

definition plate_request_other_carried :: BucklingInput where
  "plate_request_other_carried =
     plate_request\<lparr>Fibre_Type := ''Carbon'', Poissons_Ratio := 35 / 100,
       Strength_0_deg_MPa := 60, Strength_90_deg_MPa := 40, Area_mm2 := 40,
       I_min_mm4 := 13, I_max_mm4 := 1333, Buckling_Load_norm := 1\<rparr>"

subsection \<open>The six shape names the formula recognises\<close>

definition known_shapes :: "string list" where
  "known_shapes = [''Plate'', ''Plate_With_Hole'', ''Cylinder'', ''Hollow_Cylinder'',
                   ''Rectangular_Bar'', ''Hollow_Rectangular_Bar'']"

subsection \<open>The material table as the specification lists it\<close>

text \<open>
  The specification gives the table as CF-PLA 3.2, GF-PLA 5.0, PLA and Standard_PLA 2.3,
  ABS and Standard_ABS 2.1, each name spelt with the ASCII hyphen. This definition
  follows those words, for comparison with \<^verbatim>\<open>MATERIAL_MODULUS\<close> above.
\<close>

definition spec_material_table :: "(string \<times> real) list" where
  "spec_material_table =
     [(''CF-PLA'', 32 / 10), (''GF-PLA'', 5), (''PLA'', 23 / 10), (''Standard_PLA'', 23 / 10),
      (''ABS'', 21 / 10), (''Standard_ABS'', 21 / 10)]"

text \<open>The plate request for a material name that contains a space.\<close>

definition abs_request :: BucklingInput where
  "abs_request = plate_request\<lparr>Material := ''Standard ABS''\<rparr>"

subsection \<open>Invalid geometry\<close>


section \<open>Auxiliary facts\<close>

subsection \<open>Bounds on \<open>pi\<close> from the Maclaurin expansion of the sine at \<open>pi / 6\<close>\<close>

lemma lessThan_3: "{..<3::nat} = {0, 1, 2}" by auto
lemma lessThan_5: "{..<5::nat} = {0, 1, 2, 3, 4}" by auto

lemma sin_lower_cubic:
  fixes x :: real
  assumes "0 < x"
  shows "x - x ^ 3 / 6 \<le> sin x"
proof -
  obtain t where t: "sin x = (\<Sum>m<3. sin_coeff m * x ^ m) + sin (t + 1 / 2 * real 3 * pi) / fact 3 * x ^ 3"
    using Maclaurin_sin_expansion3 [of 3 x] assms by auto
  have s: "(\<Sum>m<3. sin_coeff m * x ^ m) = x"
    by (simp add: sin_coeff_def lessThan_3)
  have "sin (t + 3 / 2 * pi) = - cos t"
    by (simp only: sin_add sin_3over2_pi cos_3over2_pi)
  then have c: "sin (t + 1 / 2 * real 3 * pi) = - cos t"
    by simp
  have "sin x = x - cos t * x ^ 3 / 6"
    unfolding t s c by (simp add: fact_numeral)
  moreover have "cos t * x ^ 3 \<le> 1 * x ^ 3"
    using assms by (intro mult_right_mono) auto
  ultimately show ?thesis by simp
qed

lemma sin_upper_quintic:
  fixes x :: real
  assumes "0 < x"
  shows "sin x \<le> x - x ^ 3 / 6 + x ^ 5 / 120"
proof -
  obtain t where t: "sin x = (\<Sum>m<5. sin_coeff m * x ^ m) + sin (t + 1 / 2 * real 5 * pi) / fact 5 * x ^ 5"
    using Maclaurin_sin_expansion3 [of 5 x] assms by auto
  have s: "(\<Sum>m<5. sin_coeff m * x ^ m) = x - x ^ 3 / 6"
    by (simp add: sin_coeff_def lessThan_5 fact_numeral)
  have "t + 5 / 2 * pi = (t + pi / 2) + 2 * pi"
    by simp
  then have "sin (t + 5 / 2 * pi) = sin (t + pi / 2)"
    by (simp only: sin_periodic)
  then have c: "sin (t + 1 / 2 * real 5 * pi) = cos t"
    by (simp add: sin_add)
  have "sin x = x - x ^ 3 / 6 + cos t * x ^ 5 / 120"
    unfolding t s c by (simp add: fact_numeral)
  moreover have "cos t * x ^ 5 \<le> 1 * x ^ 5"
    using assms by (intro mult_right_mono) auto
  ultimately show ?thesis by simp
qed

lemma pi_less_33: "pi < 33 / 10"
proof (rule ccontr)
  assume "\<not> pi < 33 / 10"
  then have lo: "11 / 20 \<le> pi / 6" by simp
  have hi: "pi / 6 < 2 / 3" using pi_less_4 by simp
  define y where "y = pi / 6"
  have y: "11 / 20 \<le> y" "y < 2 / 3" "0 < y" using lo hi by (simp_all add: y_def)
  have "y ^ 2 \<le> (2 / 3) ^ 2" using y by (intro power_mono) auto
  then have "y\<^sup>2 \<le> 4 / 9" by (simp add: power2_eq_square)
  then have "25 / 27 \<le> 1 - y\<^sup>2 / 6" by simp
  then have "(11 / 20) * (25 / 27) \<le> y * (1 - y\<^sup>2 / 6)"
    using y by (intro mult_mono) auto
  moreover have "y * (1 - y\<^sup>2 / 6) = y - y ^ 3 / 6"
    by (simp add: power2_eq_square power3_eq_cube algebra_simps)
  moreover have "y - y ^ 3 / 6 \<le> sin y" using sin_lower_cubic y by simp
  moreover have "sin y = 1 / 2" by (simp add: y_def sin_30)
  ultimately show False by simp
qed

lemma pi_lower_step:
  fixes a c :: real
  assumes a: "0 < a" "6 * a < pi" and c: "c - a ^ 3 / 6 + c ^ 5 / 120 < 1 / 2"
  shows "6 * c < pi"
proof (rule ccontr)
  assume "\<not> 6 * c < pi"
  define y where "y = pi / 6"
  have y: "a < y" "y \<le> c" "0 < y"
    using a \<open>\<not> 6 * c < pi\<close> by (simp_all add: y_def)
  have "a ^ 3 \<le> y ^ 3" using y a by (intro power_mono) auto
  moreover have "y ^ 5 \<le> c ^ 5" using y by (intro power_mono) auto
  moreover have "sin y \<le> y - y ^ 3 / 6 + y ^ 5 / 120" using sin_upper_quintic y by simp
  moreover have "sin y = 1 / 2" by (simp add: y_def sin_30)
  ultimately show False using y c by linarith
qed

lemma pi_greater_313: "313 / 100 < pi"
proof -
  have "6 * (3 / 10) < pi" using pi_ge_two by simp
  then have "6 * (1 / 2) < pi"
    by (rule pi_lower_step [rotated]) (simp_all add: power_divide)
  then have "6 * (31 / 60) < pi"
    by (rule pi_lower_step [rotated]) (simp_all add: power_divide)
  then have "6 * (313 / 600) < pi"
    by (rule pi_lower_step [rotated]) (simp_all add: power_divide)
  then show ?thesis by simp
qed

lemma pi_upper_step:
  fixes b c :: real
  assumes b: "pi < 6 * b" and c: "0 < c" "1 / 2 < c - b ^ 3 / 6"
  shows "pi < 6 * c"
proof (rule ccontr)
  assume "\<not> pi < 6 * c"
  define y where "y = pi / 6"
  have y: "c \<le> y" "y < b" "0 < y"
    using b c \<open>\<not> pi < 6 * c\<close> by (simp_all add: y_def)
  have "y ^ 3 \<le> b ^ 3" using y by (intro power_mono) auto
  moreover have "y - y ^ 3 / 6 \<le> sin y" using sin_lower_cubic y by simp
  moreover have "sin y = 1 / 2" by (simp add: y_def sin_30)
  ultimately show False using y c by linarith
qed

lemma pi_greater_314: "314 / 100 < pi"
proof -
  have "6 * (313 / 600) < pi" using pi_greater_313 by simp
  then have "6 * (314 / 600) < pi"
    by (rule pi_lower_step [rotated]) (simp_all add: power_divide)
  then show ?thesis by simp
qed

lemma pi_less_3145: "pi < 3145 / 1000"
proof -
  have "pi < 6 * (11 / 20)" using pi_less_33 by simp
  then have "pi < 6 * (528 / 1000)"
    by (rule pi_upper_step) (simp_all add: power_divide)
  then have "pi < 6 * (525 / 1000)"
    by (rule pi_upper_step) (simp_all add: power_divide)
  then have "pi < 6 * (3145 / 6000)"
    by (rule pi_upper_step) (simp_all add: power_divide)
  then show ?thesis by simp
qed

lemma pi_square_tight: "9859 / 1000 < pi\<^sup>2" "pi\<^sup>2 < 9892 / 1000"
proof -
  have "(314 / 100)\<^sup>2 < pi\<^sup>2"
    using pi_greater_314 by (intro power_strict_mono) auto
  then show "9859 / 1000 < pi\<^sup>2" by (simp add: power2_eq_square)
  have "pi\<^sup>2 < (3145 / 1000)\<^sup>2"
    using pi_less_3145 by (intro power_strict_mono) auto
  then show "pi\<^sup>2 < 9892 / 1000" by (simp add: power2_eq_square)
qed

lemma round_half_even_near:
  assumes "of_int n - 1 / 2 < x" "x < of_int n + 1 / 2"
  shows "round_half_even x = n"
proof -
  have "\<lfloor>x\<rfloor> = n \<or> \<lfloor>x\<rfloor> = n - 1"
    using assms by linarith
  then show ?thesis
    using assms by (auto simp: round_half_even_def Let_def)
qed

lemma pi_square_bounds: "979 / 100 < pi\<^sup>2" "pi\<^sup>2 < 1089 / 100"
proof -
  have "(313 / 100)\<^sup>2 < pi\<^sup>2"
    using pi_greater_313 by (intro power_strict_mono) auto
  then show "979 / 100 < pi\<^sup>2" by (simp add: power2_eq_square)
  have "pi\<^sup>2 < (33 / 10)\<^sup>2"
    using pi_less_33 by (intro power_strict_mono) auto
  then show "pi\<^sup>2 < 1089 / 100" by (simp add: power2_eq_square)
qed

subsection \<open>The formula returns, and what the endpoint makes of it\<close>

lemma euler_load_val:
  "euler_load E I L =
     Inr (if E > 0 \<and> I > 0 \<and> 2 * L > 0
          then py_round (pi\<^sup>2 * E * I / (2 * L)\<^sup>2 / 1000) 3 else 0)"
  by (simp add: euler_load_def Let_def py_div_def and_then_def)

lemma round_half_even_nonneg: "0 \<le> x \<Longrightarrow> 0 \<le> round_half_even x"
  by (auto simp: round_half_even_def Let_def)

lemma round_half_even_mono:
  assumes "x \<le> y"
  shows "round_half_even x \<le> round_half_even y"
proof (cases "\<lfloor>x\<rfloor> = \<lfloor>y\<rfloor>")
  case True
  then show ?thesis
    using assms by (auto simp: round_half_even_def Let_def)
next
  case False
  then have "\<lfloor>x\<rfloor> + 1 \<le> \<lfloor>y\<rfloor>"
    using assms floor_mono [of x y] by linarith
  moreover have "round_half_even x \<le> \<lfloor>x\<rfloor> + 1"
    by (auto simp: round_half_even_def Let_def)
  moreover have "\<lfloor>y\<rfloor> \<le> round_half_even y"
    by (auto simp: round_half_even_def Let_def)
  ultimately show ?thesis by linarith
qed

lemma py_round_nonneg: "0 \<le> x \<Longrightarrow> 0 \<le> py_round x n"
  by (simp add: py_round_def round_half_even_nonneg)

lemma py_round_mono: "x \<le> y \<Longrightarrow> py_round x n \<le> py_round y n"
  by (simp add: py_round_def round_half_even_mono divide_right_mono)

lemma euler_load_nonneg: "euler_load E I L = Inr f \<Longrightarrow> 0 \<le> f"
  by (auto simp: euler_load_val intro!: py_round_nonneg split: if_splits)

lemma formula_buckling_returns: "\<exists>f. formula_buckling data = Inr f \<and> 0 \<le> f"
proof -
  obtain f where f: "formula_buckling data = Inr f"
    by (simp add: formula_buckling_def Let_def euler_load_val)
  then have "0 \<le> f"
    by (auto simp: formula_buckling_def Let_def dest: euler_load_nonneg)
  with f show ?thesis by blast
qed

lemma predict_try_unfold:
  assumes "formula_buckling data = Inr f"
  shows "predict_try model data =
     (case model of
        None \<Rightarrow> Inr (success_response (f * (101 / 100)))
      | Some m \<Rightarrow> (case m (features data (infer_modulus data * 1000)) of
                    Inl e \<Rightarrow> Inl e
                  | Inr pred \<Rightarrow> Inr (success_response (f * (101 / 100)))))"
  using assms
  by (simp add: predict_try_def Let_def and_then_def success_response_def
           split: option.splits sum.splits)

lemma predict_buckling_unfold:
  assumes "formula_buckling data = Inr f"
  shows "predict_buckling model data =
     (case model of
        None \<Rightarrow> success_response (f * (101 / 100))
      | Some m \<Rightarrow> (case m (features data (infer_modulus data * 1000)) of
                    Inl e \<Rightarrow> error_response (exn_str e)
                  | Inr pred \<Rightarrow> success_response (f * (101 / 100))))"
  by (simp add: predict_buckling_def predict_try_unfold [OF assms] error_response_def
           split: option.splits sum.splits)



subsection \<open>Evaluating the concrete requests\<close>

lemma normalise_Plate: "normalise_shape ''Plate'' = ''Plate''"
  by code_simp


lemma plate_request_fields:
  "Shape plate_request = ''Plate''" "Material plate_request = ''PLA''"
  "Length_mm plate_request = 100" "Width_mm plate_request = 20"
  "Thickness_mm plate_request = 2" "Outer_Diameter_mm plate_request = 0"
  "Inner_Diameter_mm plate_request = 0" "Hole_Diameter_mm plate_request = 0"
  "Youngs_Modulus_GPa plate_request = 0"
  by (simp_all add: plate_request_def blank_request_def)

lemma plate_request_modulus: "infer_modulus plate_request = 23 / 10"
  by (simp add: infer_modulus_def plate_request_fields dict_get_def
      MATERIAL_MODULUS_def en_dash_def replace_space_def)

lemma plate_moment: "moment_of_inertia ''Plate'' 20 2 0 0 0 = 40 / 3"
  by (simp add: moment_of_inertia_def)

lemma plate_request_formula: "formula_buckling plate_request = Inr (8 / 1000)"
proof -
  let ?z = "pi\<^sup>2 * (23 / 10 * 1000) * (40 / 3) / (2 * 100)\<^sup>2 / 1000 * 10 ^ 3"
  have z: "?z = pi\<^sup>2 * (23 / 30)" by simp
  have "of_int 8 - 1 / 2 < ?z" "?z < of_int 8 + 1 / 2"
    unfolding z using pi_square_bounds by simp_all
  then have "round_half_even ?z = 8"
    by (rule round_half_even_near)
  then have R: "py_round (pi\<^sup>2 * (23 / 10 * 1000) * (40 / 3) / (2 * 100)\<^sup>2 / 1000) 3 = 8 / 1000"
    unfolding py_round_def by simp
  have "formula_buckling plate_request =
          Inr (if (0::real) < 23 / 10 * 1000 \<and> (0::real) < 40 / 3 \<and> (0::real) < 2 * 100
               then py_round (pi\<^sup>2 * (23 / 10 * 1000) * (40 / 3) / (2 * 100)\<^sup>2 / 1000) 3
               else 0)"
    by (simp only: formula_buckling_def Let_def euler_load_val plate_request_fields
        plate_request_modulus normalise_Plate plate_moment)
  then show ?thesis
    unfolding R by simp
qed

subsection \<open>Requests that agree on the fields read\<close>

lemma same_used_fields_formula:
  assumes "same_used_fields d1 d2"
  shows "infer_modulus d1 = infer_modulus d2"
    and "features d1 E = features d2 E"
    and "formula_buckling d1 = formula_buckling d2"
proof -
  have e: "Shape d1 = Shape d2" "Material d1 = Material d2"
    "Length_mm d1 = Length_mm d2" "Width_mm d1 = Width_mm d2"
    "Thickness_mm d1 = Thickness_mm d2" "Outer_Diameter_mm d1 = Outer_Diameter_mm d2"
    "Inner_Diameter_mm d1 = Inner_Diameter_mm d2" "Hole_Diameter_mm d1 = Hole_Diameter_mm d2"
    "Youngs_Modulus_GPa d1 = Youngs_Modulus_GPa d2"
    using assms by (simp_all add: same_used_fields_def)
  show m: "infer_modulus d1 = infer_modulus d2"
    unfolding infer_modulus_def e by (rule refl)
  show "features d1 E = features d2 E"
    unfolding features_def e by (rule refl)
  show "formula_buckling d1 = formula_buckling d2"
    unfolding formula_buckling_def e m by (rule refl)
qed

subsection \<open>A negative modulus\<close>


lemma euler_load_plate: "euler_load 2300 (40 / 3) 100 = Inr (8 / 1000)"
proof -
  let ?z = "pi\<^sup>2 * 2300 * (40 / 3) / (2 * 100)\<^sup>2 / 1000 * 10 ^ 3"
  have z: "?z = pi\<^sup>2 * (23 / 30)" by simp
  have "of_int 8 - 1 / 2 < ?z" "?z < of_int 8 + 1 / 2"
    unfolding z using pi_square_bounds by simp_all
  then have "round_half_even ?z = 8"
    by (rule round_half_even_near)
  then have R: "py_round (pi\<^sup>2 * 2300 * (40 / 3) / (2 * 100)\<^sup>2 / 1000) 3 = 8 / 1000"
    unfolding py_round_def by simp
  show ?thesis
    unfolding euler_load_val R by simp
qed

lemma euler_load_plate_200: "euler_load 2300 (40 / 3) 200 = Inr (2 / 1000)"
proof -
  let ?z = "pi\<^sup>2 * 2300 * (40 / 3) / (2 * 200)\<^sup>2 / 1000 * 10 ^ 3"
  have z: "?z = pi\<^sup>2 * (23 / 120)" by simp
  have "of_int 2 - 1 / 2 < ?z" "?z < of_int 2 + 1 / 2"
    unfolding z using pi_square_bounds by simp_all
  then have "round_half_even ?z = 2"
    by (rule round_half_even_near)
  then have R: "py_round (pi\<^sup>2 * 2300 * (40 / 3) / (2 * 200)\<^sup>2 / 1000) 3 = 2 / 1000"
    unfolding py_round_def by simp
  show ?thesis
    unfolding euler_load_val R by simp
qed

lemma euler_load_plate_4600: "euler_load 4600 (40 / 3) 100 = Inr (15 / 1000)"
proof -
  let ?z = "pi\<^sup>2 * 4600 * (40 / 3) / (2 * 100)\<^sup>2 / 1000 * 10 ^ 3"
  have z: "?z = pi\<^sup>2 * (23 / 15)" by simp
  have "of_int 15 - 1 / 2 < ?z" "?z < of_int 15 + 1 / 2"
    unfolding z using pi_square_tight by simp_all
  then have "round_half_even ?z = 15"
    by (rule round_half_even_near)
  then have R: "py_round (pi\<^sup>2 * 4600 * (40 / 3) / (2 * 100)\<^sup>2 / 1000) 3 = 15 / 1000"
    unfolding py_round_def by simp
  show ?thesis
    unfolding euler_load_val R by simp
qed

lemma plate_none_response: "predict_buckling None plate_request = success_response (808 / 100000)"
  by (simp add: predict_buckling_unfold [OF plate_request_formula])

subsection \<open>Monotonicity of the Euler block\<close>

lemma euler_load_mono_E:
  assumes "0 < L" "E1 \<le> E2"
  shows "\<exists>f1 f2. euler_load E1 I L = Inr f1 \<and> euler_load E2 I L = Inr f2 \<and> f1 \<le> f2"
proof (cases "0 < E1 \<and> 0 < I")
  case True
  then have "pi\<^sup>2 * E1 * I / (2 * L)\<^sup>2 / 1000 \<le> pi\<^sup>2 * E2 * I / (2 * L)\<^sup>2 / 1000"
    using assms by (intro divide_right_mono mult_right_mono mult_left_mono) auto
  then show ?thesis
    using True assms by (simp add: euler_load_val py_round_mono)
next
  case False
  obtain f2 where f2: "euler_load E2 I L = Inr f2"
    by (simp add: euler_load_val)
  then have "0 \<le> f2" by (rule euler_load_nonneg)
  moreover have "euler_load E1 I L = Inr 0"
    using False by (auto simp: euler_load_val)
  ultimately show ?thesis using f2 by simp
qed

lemma euler_load_mono_I:
  assumes "0 < L" "I1 \<le> I2"
  shows "\<exists>f1 f2. euler_load E I1 L = Inr f1 \<and> euler_load E I2 L = Inr f2 \<and> f1 \<le> f2"
proof (cases "0 < E \<and> 0 < I1")
  case True
  then have "pi\<^sup>2 * E * I1 / (2 * L)\<^sup>2 / 1000 \<le> pi\<^sup>2 * E * I2 / (2 * L)\<^sup>2 / 1000"
    using assms by (intro divide_right_mono mult_right_mono mult_left_mono) auto
  then show ?thesis
    using True assms by (simp add: euler_load_val py_round_mono)
next
  case False
  obtain f2 where f2: "euler_load E I2 L = Inr f2"
    by (simp add: euler_load_val)
  then have "0 \<le> f2" by (rule euler_load_nonneg)
  moreover have "euler_load E I1 L = Inr 0"
    using False by (auto simp: euler_load_val)
  ultimately show ?thesis using f2 by simp
qed

lemma euler_load_antimono_L:
  assumes "0 < L1" "L1 \<le> L2"
  shows "\<exists>f1 f2. euler_load E I L1 = Inr f1 \<and> euler_load E I L2 = Inr f2 \<and> f2 \<le> f1"
proof (cases "0 < E \<and> 0 < I")
  case True
  have "(2 * L1)\<^sup>2 \<le> (2 * L2)\<^sup>2"
    using assms by (intro power_mono) auto
  moreover have "0 < (2 * L1)\<^sup>2" using assms by simp
  moreover have "0 \<le> pi\<^sup>2 * E * I" using True by simp
  ultimately have "pi\<^sup>2 * E * I / (2 * L2)\<^sup>2 \<le> pi\<^sup>2 * E * I / (2 * L1)\<^sup>2"
    by (intro frac_le) simp_all
  then have "pi\<^sup>2 * E * I / (2 * L2)\<^sup>2 / 1000 \<le> pi\<^sup>2 * E * I / (2 * L1)\<^sup>2 / 1000"
    by (rule divide_right_mono) simp
  then show ?thesis
    using True assms by (simp add: euler_load_val py_round_mono)
next
  case False
  then show ?thesis by (auto simp: euler_load_val)
qed

subsection \<open>Invalid geometry\<close>




section \<open>The claims\<close>

subsection \<open>C1: the returned value is the formula result with a 1% uplift\<close>

text \<open>
  Claim C1. Whenever the body of the endpoint does not raise, the success value is the
  result of \<^verbatim>\<open>formula_buckling\<close> for that request times 1.01. This holds
  for every state of the model: absent, or present with any prediction, valid or not.
  Moreover the body does not raise whenever the model call returns.
\<close>

theorem predict_buckling_uplift:
  "(predict_try model data = Inr r \<longrightarrow>
      (\<exists>f. formula_buckling data = Inr f \<and> r = success_response (f * (101 / 100))
           \<and> predict_buckling model data = success_response (f * (101 / 100))))
   \<and> (model_returns model data \<longrightarrow>
      (\<exists>f. formula_buckling data = Inr f
           \<and> predict_buckling model data = success_response (f * (101 / 100))))"
proof -
  obtain f where f: "formula_buckling data = Inr f"
    using formula_buckling_returns by blast
  show ?thesis
    unfolding predict_buckling_unfold [OF f] predict_try_unfold [OF f] f model_returns_def
    by (auto split: option.splits sum.splits)
qed

theorem predict_buckling_uplift_witness:
  "predict_try (Some nan_model) plate_request = Inr (success_response (808 / 100000))
   \<and> model_returns (Some nan_model) plate_request
   \<and> formula_buckling plate_request = Inr (8 / 1000)
   \<and> predict_buckling (Some nan_model) plate_request = success_response (8 / 1000 * (101 / 100))"
proof -
  have h1: "predict_try (Some nan_model) plate_request = Inr (success_response (808 / 100000))"
    by (simp add: predict_try_unfold [OF plate_request_formula] nan_model_def)
  have h2: "model_returns (Some nan_model) plate_request"
    by (simp add: model_returns_def nan_model_def)
  show ?thesis
    using predict_buckling_uplift [of "Some nan_model" plate_request "success_response (808 / 100000)"]
      h1 h2 plate_request_formula
    by auto
qed

subsection \<open>C2: the Euler formula, its guard and its units\<close>



subsection \<open>C3: the moment of inertia by shape\<close>

text \<open>
  Claim C3. The moment of inertia follows the shape table: \<open>b * t^3 / 12\<close> for a
  plate and for a rectangular bar; \<open>b * t^3 / 12 - pi * d^4 / 64\<close> for a plate
  with a hole, not clamped; \<open>(pi / 64) * d_o^4\<close> for a cylinder;
  \<open>(pi / 64) * (d_o^4 - d_i^4)\<close> for a hollow cylinder when \<open>d_o > d_i\<close> and 0
  otherwise; \<open>(b^4 - (b - 2 * t)^4) / 12\<close> for a hollow rectangular bar when
  \<open>b > 2 * t\<close> and 0 otherwise; 0 for every other shape name.
\<close>

theorem moment_of_inertia_table:
  "moment_of_inertia ''Plate'' b t d_o d_i d = b * t ^ 3 / 12
   \<and> moment_of_inertia ''Rectangular_Bar'' b t d_o d_i d = b * t ^ 3 / 12
   \<and> moment_of_inertia ''Plate_With_Hole'' b t d_o d_i d = b * t ^ 3 / 12 - pi * d ^ 4 / 64
   \<and> moment_of_inertia ''Cylinder'' b t d_o d_i d = (pi / 64) * d_o ^ 4
   \<and> moment_of_inertia ''Hollow_Cylinder'' b t d_o d_i d =
        (if d_o > d_i then (pi / 64) * (d_o ^ 4 - d_i ^ 4) else 0)
   \<and> moment_of_inertia ''Hollow_Rectangular_Bar'' b t d_o d_i d =
        (if b > 2 * t then (b ^ 4 - (b - 2 * t) ^ 4) / 12 else 0)
   \<and> (shape \<notin> set known_shapes \<longrightarrow> moment_of_inertia shape b t d_o d_i d = 0)"
  by (simp add: moment_of_inertia_def known_shapes_def)

theorem moment_of_inertia_table_witness:
  "''Select'' \<notin> set known_shapes
   \<and> moment_of_inertia ''Select'' 20 2 20 10 5 = 0
   \<and> moment_of_inertia ''Plate'' 20 2 20 10 5 = 40 / 3
   \<and> moment_of_inertia ''Hollow_Cylinder'' 20 2 20 25 5 = 0
   \<and> moment_of_inertia ''Hollow_Rectangular_Bar'' 4 2 20 10 5 = 0
   \<and> moment_of_inertia ''Hollow_Rectangular_Bar'' 6 1 20 10 5 = 260 / 3
   \<and> moment_of_inertia ''Plate_With_Hole'' 1 1 0 0 2 = 1 / 12 - pi / 4
   \<and> moment_of_inertia ''Plate_With_Hole'' 1 1 0 0 2 < 0"
proof -
  have h: "''Select'' \<notin> set known_shapes"
    by (simp add: known_shapes_def)
  have "1 / 12 - pi / 4 < 0" using pi_ge_two by simp
  then show ?thesis
    using moment_of_inertia_table [of 20 2 20 10 5 "''Select''"]
      moment_of_inertia_table [of 20 2 20 25 5 "''Select''"]
      moment_of_inertia_table [of 4 2 20 10 5 "''Select''"]
      moment_of_inertia_table [of 6 1 20 10 5 "''Select''"]
      moment_of_inertia_table [of 1 1 0 0 2 "''Select''"] h
    by simp
qed

subsection \<open>C4: resolving the modulus\<close>

text \<open>
  Against claim C4 as stated. The request the web form sends for carbon-fibre PLA
  names the material ``CF-PLA'' with an en dash. That name is not in the table the
  claim lists, the supplied modulus is 0, and the code resolves it to 3.2 GPa, not
  to the fallback 2.3 GPa.
\<close>

theorem modulus_en_dash_counterexample:
  "Youngs_Modulus_GPa cf_pla_request = 0
   \<and> map_of spec_material_table (replace_space (Material cf_pla_request)) = None
   \<and> infer_modulus cf_pla_request = 32 / 10
   \<and> infer_modulus cf_pla_request \<noteq> 23 / 10"
  by (simp add: cf_pla_request_def plate_request_def blank_request_def spec_material_table_def
      replace_space_def en_dash_def infer_modulus_def dict_get_def MATERIAL_MODULUS_def)

text \<open>
  Claim C4, amended. A non-zero supplied modulus is used unchanged. A zero modulus is
  resolved from the material name with spaces replaced by underscores: CF-PLA, with
  a hyphen or with an en dash, gives 3.2; GF-PLA, with a hyphen or with an en dash,
  gives 5.0; PLA and Standard_PLA give 2.3; ABS and Standard_ABS give 2.1; every
  other name gives 2.3. Nothing raises.
\<close>

theorem infer_modulus_table:
  "infer_modulus data =
     (if Youngs_Modulus_GPa data \<noteq> 0 then Youngs_Modulus_GPa data
      else let name = replace_space (Material data)
           in if name = ''CF-PLA'' \<or> name = ''CF'' @ en_dash @ ''PLA'' then 32 / 10
              else if name = ''GF-PLA'' \<or> name = ''GF'' @ en_dash @ ''PLA'' then 5
              else if name = ''PLA'' \<or> name = ''Standard_PLA'' then 23 / 10
              else if name = ''ABS'' \<or> name = ''Standard_ABS'' then 21 / 10
              else 23 / 10)"
  by (simp add: infer_modulus_def dict_get_def MATERIAL_MODULUS_def Let_def)

theorem infer_modulus_table_witness:
  "infer_modulus cf_pla_request = 32 / 10
   \<and> infer_modulus abs_request = 21 / 10
   \<and> infer_modulus (plate_request\<lparr>Material := ''unknown_material''\<rparr>) = 23 / 10
   \<and> infer_modulus (plate_request\<lparr>Youngs_Modulus_GPa := 75 / 10\<rparr>) = 75 / 10
   \<and> infer_modulus plate_request_negative_E = - 1"
  using infer_modulus_table [of cf_pla_request] infer_modulus_table [of abs_request]
    infer_modulus_table [of "plate_request\<lparr>Material := ''unknown_material''\<rparr>"]
    infer_modulus_table [of "plate_request\<lparr>Youngs_Modulus_GPa := 75 / 10\<rparr>"]
    infer_modulus_table [of plate_request_negative_E]
  by (simp add: cf_pla_request_def abs_request_def plate_request_negative_E_def
      plate_request_def blank_request_def replace_space_def en_dash_def)

subsection \<open>C5: the worked example\<close>

text \<open>
  Against claim C5 as stated. For the PLA plate (20 mm by 2 mm, 100 mm long, modulus
  left at 0) the formula returns 0.008 kN and the endpoint, with no model, returns
  0.00808 kN. Neither is within 0.0001 of the 0.00758 kN and 0.00766 kN of the claim.
\<close>

theorem plate_example_counterexample:
  "formula_buckling plate_request = Inr (8 / 1000)
   \<and> \<not> \<bar>8 / 1000 - 758 / 100000\<bar> \<le> (1 / 10000 :: real)
   \<and> predict_buckling None plate_request = success_response (808 / 100000)
   \<and> \<not> \<bar>808 / 100000 - 766 / 100000\<bar> \<le> (1 / 10000 :: real)"
  using plate_request_formula plate_none_response by simp

text \<open>
  Claim C5, amended. For the PLA plate the moment of inertia is \<open>20 * 2^3 / 12\<close>,
  the resolved modulus is 2300 MPa and the effective length is 200 mm. The Euler
  load before rounding lies between 0.00755 and 0.00759 kN; the formula rounds it to
  three decimal places and returns 0.008 kN, and the endpoint returns
  0.008 * 1.01 = 0.00808 kN.
\<close>

theorem plate_example:
  "moment_of_inertia (normalise_shape (Shape plate_request)) (Width_mm plate_request)
      (Thickness_mm plate_request) (Outer_Diameter_mm plate_request)
      (Inner_Diameter_mm plate_request) (Hole_Diameter_mm plate_request) = 20 * 2 ^ 3 / 12
   \<and> infer_modulus plate_request * 1000 = 2300
   \<and> 2 * Length_mm plate_request = 200
   \<and> 755 / 100000 < pi\<^sup>2 * 2300 * (20 * 2 ^ 3 / 12) / 200\<^sup>2 / 1000
   \<and> pi\<^sup>2 * 2300 * (20 * 2 ^ 3 / 12) / 200\<^sup>2 / 1000 < 759 / 100000
   \<and> formula_buckling plate_request = Inr (8 / 1000)
   \<and> predict_buckling None plate_request = success_response (808 / 100000)"
proof -
  have "moment_of_inertia (normalise_shape (Shape plate_request)) (Width_mm plate_request)
      (Thickness_mm plate_request) (Outer_Diameter_mm plate_request)
      (Inner_Diameter_mm plate_request) (Hole_Diameter_mm plate_request) = 20 * 2 ^ 3 / 12"
    by (simp add: plate_request_fields normalise_Plate plate_moment)
  moreover have "infer_modulus plate_request * 1000 = 2300"
    by (simp add: plate_request_modulus)
  moreover have "2 * Length_mm plate_request = 200"
    by (simp add: plate_request_fields)
  moreover have "pi\<^sup>2 * 2300 * (20 * 2 ^ 3 / 12) / 200\<^sup>2 / 1000 = pi\<^sup>2 * (23 / 30000)"
    by simp
  moreover have "755 / 100000 < pi\<^sup>2 * (23 / 30000)" "pi\<^sup>2 * (23 / 30000) < 759 / 100000"
    using pi_square_tight by simp_all
  ultimately show ?thesis
    using plate_request_formula plate_none_response by simp
qed

subsection \<open>C6: monotonicity of the Euler load\<close>

text \<open>
  Against claim C6 as stated. With modulus 2300 MPa and moment of inertia 40/3, both
  positive, length 0 gives the load 0 (the guard fails) and length 100 gives 0.008:
  the load is not non-increasing in the length.
\<close>

theorem euler_load_length_counterexample:
  "(0::real) < 2300 \<and> (0::real) < 40 / 3 \<and> (0::real) \<le> 100
   \<and> euler_load 2300 (40 / 3) 0 = Inr 0
   \<and> euler_load 2300 (40 / 3) 100 = Inr (8 / 1000)
   \<and> \<not> (8 / 1000 :: real) \<le> 0
   \<and> Length_mm plate_request_L0 \<le> Length_mm plate_request
   \<and> formula_buckling plate_request_L0 = Inr 0
   \<and> formula_buckling plate_request = Inr (8 / 1000)"
proof -
  have "euler_load 2300 (40 / 3) 0 = Inr 0"
    by (simp add: euler_load_val)
  moreover have "formula_buckling plate_request_L0 = Inr 0"
    by (simp add: formula_buckling_def Let_def euler_load_val plate_request_L0_def)
  moreover have "Length_mm plate_request_L0 \<le> Length_mm plate_request"
    by (simp add: plate_request_L0_def plate_request_fields)
  ultimately show ?thesis
    using euler_load_plate plate_request_formula by simp
qed

text \<open>
  Claim C6, amended. The Euler block always returns. For a fixed positive length its
  load is non-decreasing in the modulus and non-decreasing in the moment of inertia.
  For a fixed positive modulus and moment of inertia it is non-increasing in the
  length over positive lengths.
\<close>

theorem euler_load_monotone:
  "(0 < L \<and> E1 \<le> E2 \<longrightarrow>
      (\<exists>f1 f2. euler_load E1 I L = Inr f1 \<and> euler_load E2 I L = Inr f2 \<and> f1 \<le> f2))
   \<and> (0 < L \<and> I1 \<le> I2 \<longrightarrow>
      (\<exists>f1 f2. euler_load E I1 L = Inr f1 \<and> euler_load E I2 L = Inr f2 \<and> f1 \<le> f2))
   \<and> (0 < E \<and> 0 < I \<and> 0 < L1 \<and> L1 \<le> L2 \<longrightarrow>
      (\<exists>f1 f2. euler_load E I L1 = Inr f1 \<and> euler_load E I L2 = Inr f2 \<and> f2 \<le> f1))"
  using euler_load_mono_E [of L E1 E2 I] euler_load_mono_I [of L I1 I2 E]
    euler_load_antimono_L [of L1 L2 E I]
  by blast

theorem euler_load_monotone_witness:
  "(0::real) < 100 \<and> (2300::real) \<le> 4600 \<and> (0::real) < 2300 \<and> (0::real) < 40 / 3
   \<and> (100::real) \<le> 200 \<and> (0::real) \<le> 40 / 3
   \<and> euler_load 2300 (40 / 3) 100 = Inr (8 / 1000)
   \<and> euler_load 4600 (40 / 3) 100 = Inr (15 / 1000)
   \<and> euler_load 2300 0 100 = Inr 0
   \<and> euler_load 2300 (40 / 3) 200 = Inr (2 / 1000)
   \<and> (\<exists>f1 f2. euler_load 2300 (40 / 3) 100 = Inr f1 \<and> euler_load 4600 (40 / 3) 100 = Inr f2
         \<and> f1 \<le> f2)
   \<and> (\<exists>f1 f2. euler_load 2300 0 100 = Inr f1 \<and> euler_load 2300 (40 / 3) 100 = Inr f2
         \<and> f1 \<le> f2)
   \<and> (\<exists>f1 f2. euler_load 2300 (40 / 3) 100 = Inr f1 \<and> euler_load 2300 (40 / 3) 200 = Inr f2
         \<and> f2 \<le> f1)"
proof -
  have z: "euler_load 2300 0 100 = Inr 0"
    by (simp add: euler_load_val)
  have h: "(0::real) < 100 \<and> (2300::real) \<le> 4600" "(0::real) < 100 \<and> (0::real) \<le> 40 / 3"
    "(0::real) < 2300 \<and> (0::real) < 40 / 3 \<and> (0::real) < 100 \<and> (100::real) \<le> 200"
    by simp_all
  show ?thesis
    using euler_load_monotone [of 100 2300 4600 "40 / 3" 0 "40 / 3" 2300 100 200] h z
      euler_load_plate euler_load_plate_200 euler_load_plate_4600
    by simp
qed

subsection \<open>C7: one of two responses, never an exception\<close>



subsection \<open>C8: success values are never negative, invalid geometry gives 0\<close>




subsection \<open>C9: the carried fields do not influence the result\<close>

text \<open>
  Claim C9. Two requests that differ only in \<^verbatim>\<open>Fibre_Type\<close>,
  \<^verbatim>\<open>Poissons_Ratio\<close>, \<^verbatim>\<open>Strength_0_deg_MPa\<close>, \<^verbatim>\<open>Strength_90_deg_MPa\<close>,
  \<^verbatim>\<open>Area_mm2\<close>, \<^verbatim>\<open>I_min_mm4\<close>, \<^verbatim>\<open>I_max_mm4\<close> or
  \<^verbatim>\<open>Buckling_Load_norm\<close> get the same response from the endpoint, the same result
  from the formula and the same feature row for the model.
\<close>

theorem carried_fields_noninterference:
  "same_used_fields d1 d2 \<longrightarrow>
     predict_buckling model d1 = predict_buckling model d2
     \<and> formula_buckling d1 = formula_buckling d2
     \<and> features d1 (infer_modulus d1 * 1000) = features d2 (infer_modulus d2 * 1000)"
proof
  assume a: "same_used_fields d1 d2"
  note eqs = same_used_fields_formula [OF a]
  have "predict_try model d1 = predict_try model d2"
    unfolding predict_try_def eqs by (rule refl)
  then have "predict_buckling model d1 = predict_buckling model d2"
    unfolding predict_buckling_def by (rule arg_cong)
  moreover have "features d1 (infer_modulus d1 * 1000) = features d2 (infer_modulus d2 * 1000)"
    unfolding eqs by (rule refl)
  ultimately show "predict_buckling model d1 = predict_buckling model d2
     \<and> formula_buckling d1 = formula_buckling d2
     \<and> features d1 (infer_modulus d1 * 1000) = features d2 (infer_modulus d2 * 1000)"
    using eqs(3) by blast
qed

theorem carried_fields_noninterference_witness:
  "same_used_fields plate_request plate_request_other_carried
   \<and> Fibre_Type plate_request \<noteq> Fibre_Type plate_request_other_carried
   \<and> Poissons_Ratio plate_request \<noteq> Poissons_Ratio plate_request_other_carried
   \<and> Strength_0_deg_MPa plate_request \<noteq> Strength_0_deg_MPa plate_request_other_carried
   \<and> Strength_90_deg_MPa plate_request \<noteq> Strength_90_deg_MPa plate_request_other_carried
   \<and> Area_mm2 plate_request \<noteq> Area_mm2 plate_request_other_carried
   \<and> I_min_mm4 plate_request \<noteq> I_min_mm4 plate_request_other_carried
   \<and> I_max_mm4 plate_request \<noteq> I_max_mm4 plate_request_other_carried
   \<and> Buckling_Load_norm plate_request \<noteq> Buckling_Load_norm plate_request_other_carried
   \<and> predict_buckling (Some constant_model) plate_request
       = predict_buckling (Some constant_model) plate_request_other_carried"
proof -
  have h: "same_used_fields plate_request plate_request_other_carried"
    by (simp add: same_used_fields_def plate_request_other_carried_def)
  show ?thesis
    using carried_fields_noninterference
      [of plate_request plate_request_other_carried "Some constant_model"] h
    by (simp add: plate_request_other_carried_def plate_request_def blank_request_def)
qed

subsection \<open>C10: a negative supplied modulus\<close>




end
